theory Spec2Isabelle
  imports Main
begin

section \<open>Platforms, errors and the operating-system interface\<close>

text \<open>
  \<^verbatim>\<open>sys.platform\<close> is a string; the source distinguishes \<^verbatim>\<open>"linux2"\<close>,
  \<^verbatim>\<open>"win32"\<close> and \<^verbatim>\<open>"darwin"\<close>. Every other value is \<open>OtherPlatform\<close>.
\<close>

datatype platform = Linux2 | Win32 | Darwin | OtherPlatform

text \<open>The keys of a pipeline-configuration entity that hold a path.\<close>

datatype path_field = Linux_path | Windows_path | Mac_path

text \<open>
  The dictionary \<^verbatim>\<open>platform_lookup = {"linux2": "linux_path", "win32": "windows_path",
  "darwin": "mac_path"}\<close>; indexing it with another platform raises \<^verbatim>\<open>KeyError\<close>,
  which is \<open>None\<close> here and turned into \<open>PyKeyError\<close> by the callers.
\<close>

fun platform_lookup :: "platform \<Rightarrow> path_field option" where
  "platform_lookup Linux2 = Some Linux_path"
| "platform_lookup Win32 = Some Windows_path"
| "platform_lookup Darwin = Some Mac_path"
| "platform_lookup OtherPlatform = None"

text \<open>
  Every \<^verbatim>\<open>raise TankError(...)\<close> of the source is one constructor, named after the
  failure it reports; the \<open>Py...\<close> constructors are the exceptions the Python runtime
  raises itself and the source does not catch.
\<close>

datatype error =
    InvalidInput
  | PathNotFound
  | NotInProject
  | CorruptConfig
  | ConfigurationMismatch
  | NoAccessibleConfiguration
  | AmbiguousConfiguration
  | EntityNotFound
  | EntityNotLinked
  | NoConfigurationsForProject
  | NoPrimaryConfiguration
  | PlatformPathMissing
  | UnregisteredLocation
  | ConfigurationNotInProject
  | UnsupportedPlatform
  | MissingPrimaryStorage
  | MissingField
  | VersionMismatch
  | InstallRootUnresolvable
  | WriteFailure
  | PyKeyError
  | PyTypeError
  | PyAttributeError
  | PyIOError

text \<open>The result of \<^verbatim>\<open>open\<close> followed by \<^verbatim>\<open>yaml.load\<close> on a file.\<close>

datatype 'a read = OpenError | YamlError | Loaded 'a

text \<open>
  A YAML mapping whose values are strings or null, as \<^verbatim>\<open>yaml.load\<close> returns it: a
  Python dictionary, given by its items. A key may be absent, or present with the value
  \<^verbatim>\<open>None\<close>. \<open>dict_get\<close> is \<^verbatim>\<open>d.get(k)\<close>, which is \<^verbatim>\<open>None\<close> in both cases;
  \<open>map_of d k\<close> tells them apart, as \<^verbatim>\<open>d[k]\<close> and \<^verbatim>\<open>k in d\<close> do. \<open>dict_eq\<close> is
  \<^verbatim>\<open>==\<close> on dictionaries: the same keys with the same values, in any order.
\<close>

type_synonym dict = "(string \<times> string option) list"

definition dict_get :: "dict \<Rightarrow> string \<Rightarrow> string option" where
  "dict_get d k = (case map_of d k of None \<Rightarrow> None | Some v \<Rightarrow> v)"

definition dict_eq :: "dict \<Rightarrow> dict \<Rightarrow> bool" where
  "dict_eq a b = list_all (\<lambda>k. map_of a k = map_of b k) (map fst a @ map fst b)"

text \<open>
  \<^verbatim>\<open>{'primary': {'mac_path': '/studio', 'windows_path': None, 'linux_path': '/studio'}}\<close>:
  the document of \<^verbatim>\<open>roots.yml\<close> is a dictionary from storage names to dictionaries,
  or to \<^verbatim>\<open>None\<close> for a storage that is written with no value. Once loaded, every
  storage has the three paths (the loading reads all three keys of every storage), which
  is the record.
\<close>

type_synonym raw_roots = "(string \<times> dict option) list"

record root_entry =
  mac_path :: "string option"
  linux_path :: "string option"
  windows_path :: "string option"

type_synonym roots = "(string \<times> root_entry) list"

text \<open>
  The modules \<^verbatim>\<open>os\<close>, \<^verbatim>\<open>os.path\<close> and \<^verbatim>\<open>sys\<close> and the files the source reads,
  as the code sees them. \<open>module_file\<close> is \<^verbatim>\<open>__file__\<close>. The three readers stand for
  \<^verbatim>\<open>open\<close> and \<^verbatim>\<open>yaml.load\<close> on a file: \<open>read_dict\<close> for the files that hold one
  dictionary (or nothing, the null document), \<open>read_roots\<close> for \<^verbatim>\<open>roots.yml\<close>
  (a dictionary of storages, or the null document),
  \<open>read_back_mapping\<close> for the back-mapping file, a sequence whose items are
  dictionaries or null (or the null document of an empty file). \<open>is_version_older\<close> is
  \<^verbatim>\<open>util.is_version_older\<close> of \<^verbatim>\<open>deploy/util.py\<close>, which is outside this source file.
  Of \<^verbatim>\<open>os.environ\<close>, \<^verbatim>\<open>TANK_INSTALL_LOCATION\<close> is a field; the variable the resolvers
  look at, \<^verbatim>\<open>TANK_CURRENT_PC\<close>, is an argument of its own: \<open>None\<close> when it is not set.
\<close>

record os =
  sys_platform :: platform
  path_sep :: char
  path_exists :: "string \<Rightarrow> bool"
  path_abspath :: "string \<Rightarrow> string"
  path_dirname :: "string \<Rightarrow> string"
  path_join :: "string \<Rightarrow> string \<Rightarrow> string"
  module_file :: string
  environ_TANK_INSTALL_LOCATION :: "string option"
  is_version_older :: "string \<Rightarrow> string \<Rightarrow> bool"
  read_dict :: "string \<Rightarrow> dict option read"
  read_roots :: "string \<Rightarrow> raw_roots option read"
  read_back_mapping :: "string \<Rightarrow> dict option list option read"

text \<open>The constants of \<^verbatim>\<open>platform/constants.py\<close> the source refers to.\<close>

record constants =
  PRIMARY_STORAGE_NAME :: string
  PRIMARY_PIPELINE_CONFIG_NAME :: string
  CONFIG_BACK_MAPPING_FILE :: string

text \<open>\<^verbatim>\<open>os.path.join(a, b, c, ...)\<close> joins from the left.\<close>

definition join :: "os \<Rightarrow> string \<Rightarrow> string list \<Rightarrow> string" where
  "join os a ps = foldl (path_join os) a ps"

text \<open>\<^verbatim>\<open>posixpath.join\<close> for two components, the \<^verbatim>\<open>os.path.join\<close> of linux and mac.\<close>

definition posixpath_join :: "string \<Rightarrow> string \<Rightarrow> string" where
  "posixpath_join a b =
     (if b \<noteq> [] \<and> hd b = CHR ''/'' then b
      else if a = [] \<or> last a = CHR ''/'' then a @ b
      else a @ ''/'' @ b)"

definition backslash :: char where
  "backslash = CHR 0x5C"

text \<open>\<^verbatim>\<open>s.endswith(c)\<close> for a one-character \<open>c\<close>.\<close>

definition endswith :: "string \<Rightarrow> char \<Rightarrow> bool" where
  "endswith s c = (s \<noteq> [] \<and> last s = c)"

section \<open>The roots metadata\<close>

text \<open>
  \<^verbatim>\<open>if data[s]["mac_path"] and data[s]["mac_path"].endswith("/"):
      data[s]["mac_path"] = data[s]["mac_path"][:-1]\<close>
\<close>

definition strip_trailing :: "char \<Rightarrow> string option \<Rightarrow> string option" where
  "strip_trailing c p =
     (case p of
        None \<Rightarrow> None
      | Some s \<Rightarrow> if s \<noteq> [] \<and> endswith s c then Some (butlast s) else Some s)"

text \<open>
  One round of the loop of lines 135 to 141, on the dictionary of one storage:
  \<^verbatim>\<open>data[s]["mac_path"]\<close>, \<^verbatim>\<open>data[s]["linux_path"]\<close> and \<^verbatim>\<open>data[s]["windows_path"]\<close>
  are read in this order, and each raises \<^verbatim>\<open>KeyError\<close> when the key is absent;
  the first raises \<^verbatim>\<open>TypeError\<close> when \<^verbatim>\<open>data[s]\<close> is \<^verbatim>\<open>None\<close>.
\<close>

definition strip_storage :: "dict option \<Rightarrow> error + root_entry" where
  "strip_storage storage =
     (case storage of
        None \<Rightarrow> Inl PyTypeError
      | Some d \<Rightarrow>
          (case map_of d ''mac_path'' of
             None \<Rightarrow> Inl PyKeyError
           | Some m \<Rightarrow>
               (case map_of d ''linux_path'' of
                  None \<Rightarrow> Inl PyKeyError
                | Some l \<Rightarrow>
                    (case map_of d ''windows_path'' of
                       None \<Rightarrow> Inl PyKeyError
                     | Some w \<Rightarrow>
                         Inr \<lparr>mac_path = strip_trailing CHR ''/'' m,
                              linux_path = strip_trailing CHR ''/'' l,
                              windows_path = strip_trailing backslash w\<rparr>))))"

text \<open>The loop \<^verbatim>\<open>for s in data\<close>.\<close>

fun strip_loop :: "raw_roots \<Rightarrow> error + roots" where
  "strip_loop [] = Inr []"
| "strip_loop ((s, d) # rest) =
     (case strip_storage d of
        Inl e \<Rightarrow> Inl e
      | Inr entry \<Rightarrow>
          (case strip_loop rest of
             Inl e \<Rightarrow> Inl e
           | Inr stripped \<Rightarrow> Inr ((s, entry) # stripped)))"

text \<open>
  \<^verbatim>\<open>PipelineConfiguration.__load_roots_meatadata\<close>: \<^verbatim>\<open>open\<close> is outside the
  \<^verbatim>\<open>try\<close>, so its failure is the runtime's own error; a parse failure and a missing
  primary storage are TankErrors; on the null document of an empty file the test
  \<^verbatim>\<open>not in\<close> raises \<^verbatim>\<open>TypeError\<close>.
\<close>

definition load_roots_meatadata :: "os \<Rightarrow> constants \<Rightarrow> string \<Rightarrow> error + roots" where
  "load_roots_meatadata os C pc_root =
     (let roots_yml = join os pc_root [''config'', ''core'', ''roots.yml''] in
      case read_roots os roots_yml of
        OpenError \<Rightarrow> Inl PyIOError
      | YamlError \<Rightarrow> Inl CorruptConfig
      | Loaded None \<Rightarrow> Inl PyTypeError
      | Loaded (Some data) \<Rightarrow>
          if PRIMARY_STORAGE_NAME C \<notin> set (map fst data) then Inl MissingPrimaryStorage
          else strip_loop data)"

text \<open>The fields of a constructed \<^verbatim>\<open>PipelineConfiguration\<close>.\<close>

record pipeline_configuration =
  pc_root :: string
  pc_roots :: roots
  project_name :: string
  pc_registered_location :: "string option"





section \<open>The constructor of a pipeline configuration\<close>

text \<open>
  \<^verbatim>\<open>__get_core_version\<close>: the version in \<^verbatim>\<open>install/core/info.yml\<close> of the
  configuration, \<^verbatim>\<open>None\<close> when the file does not exist or anything goes wrong (the
  \<^verbatim>\<open>except:\<close> is bare).
\<close>

definition get_core_version :: "os \<Rightarrow> string \<Rightarrow> string option" where
  "get_core_version os root =
     (let info_yml_path = join os root [''install'', ''core'', ''info.yml''] in
      if path_exists os info_yml_path then
        (case read_dict os info_yml_path of
           Loaded (Some data) \<Rightarrow> dict_get data ''version''
         | _ \<Rightarrow> None)
      else None)"

text \<open>
  \<^verbatim>\<open>get_core_api_version_based_on_current_code\<close>:
  \<^verbatim>\<open>str(data.get("version", "unknown"))\<close>, and \<^verbatim>\<open>"unknown"\<close> on any exception.
\<close>

definition get_core_api_version_based_on_current_code :: "os \<Rightarrow> string" where
  "get_core_api_version_based_on_current_code os =
     (let info_yml_path =
            path_abspath os (join os (path_dirname os (module_file os)) [''..'', ''..'', ''info.yml''])
      in case read_dict os info_yml_path of
           Loaded (Some data) \<Rightarrow>
             (case map_of data ''version'' of
                None \<Rightarrow> ''unknown''
              | Some None \<Rightarrow> ''None''
              | Some (Some v) \<Rightarrow> v)
         | _ \<Rightarrow> ''unknown'')"

text \<open>\<^verbatim>\<open>get_install_root\<close>\<close>

definition get_install_root :: "os \<Rightarrow> error + string" where
  "get_install_root os =
     (let install_path =
            path_abspath os (join os (path_dirname os (module_file os)) [''..'', ''..'', ''..''])
      in if \<not> path_exists os install_path then
           (case environ_TANK_INSTALL_LOCATION os of
              Some p \<Rightarrow> Inr p
            | None \<Rightarrow> Inl InstallRootUnresolvable)
         else Inr install_path)"

text \<open>
  Lines 36 to 54 of the constructor. The message of the error calls
  \<^verbatim>\<open>get_python_location\<close>, and so \<^verbatim>\<open>get_install_root\<close>, which can raise first.
\<close>

definition check_core_version :: "os \<Rightarrow> string \<Rightarrow> error + unit" where
  "check_core_version os root =
     (case get_core_version os root of
        None \<Rightarrow> Inr ()
      | Some our_version \<Rightarrow>
          (let current_api = get_core_api_version_based_on_current_code os in
           if is_version_older os current_api our_version then
             (case get_install_root os of
                Inl e \<Rightarrow> Inl e
              | Inr install_root \<Rightarrow> Inl VersionMismatch)
           else Inr ()))"

text \<open>
  \<^verbatim>\<open>__load_config_metadata\<close>: the project name. \<^verbatim>\<open>data.get\<close> is outside the
  \<^verbatim>\<open>try\<close> and raises \<^verbatim>\<open>AttributeError\<close> on the null document.
\<close>

definition load_config_metadata :: "os \<Rightarrow> string \<Rightarrow> error + string" where
  "load_config_metadata os root =
     (let cfg_yml = join os root [''config'', ''core'', ''pipeline_configuration.yml''] in
      case read_dict os cfg_yml of
        OpenError \<Rightarrow> Inl PyIOError
      | YamlError \<Rightarrow> Inl CorruptConfig
      | Loaded None \<Rightarrow> Inl PyAttributeError
      | Loaded (Some data) \<Rightarrow>
          (case dict_get data ''project_name'' of
             None \<Rightarrow> Inl MissingField
           | Some name \<Rightarrow> Inr name))"

text \<open>
  \<^verbatim>\<open>get_pc_registered_location\<close>: the path registered for the current platform in
  \<^verbatim>\<open>install_location.yml\<close>, which may be \<^verbatim>\<open>None\<close>. \<open>data_get\<close> is
  \<^verbatim>\<open>data.get(k)\<close> on the loaded document, which raises \<^verbatim>\<open>AttributeError\<close> when the
  document is null.
\<close>

definition data_get :: "dict option \<Rightarrow> string \<Rightarrow> error + string option" where
  "data_get data k = (case data of None \<Rightarrow> Inl PyAttributeError | Some d \<Rightarrow> Inr (dict_get d k))"

definition get_pc_registered_location :: "os \<Rightarrow> string \<Rightarrow> error + string option" where
  "get_pc_registered_location os pipeline_config_root_path =
     (let cfg_yml = join os pipeline_config_root_path [''config'', ''core'', ''install_location.yml''] in
      case read_dict os cfg_yml of
        OpenError \<Rightarrow> Inl PyIOError
      | YamlError \<Rightarrow> Inl CorruptConfig
      | Loaded data \<Rightarrow>
          (case sys_platform os of
             Linux2 \<Rightarrow> data_get data ''Linux''
           | Win32 \<Rightarrow> data_get data ''Windows''
           | Darwin \<Rightarrow> data_get data ''Darwin''
           | OtherPlatform \<Rightarrow> Inl UnsupportedPlatform))"

text \<open>
  \<^verbatim>\<open>PipelineConfiguration.__init__\<close>: the version check, then the three loads, each of
  which can raise. What it returns is the constructed object.
\<close>

definition PipelineConfiguration :: "os \<Rightarrow> constants \<Rightarrow> string \<Rightarrow> error + pipeline_configuration" where
  "PipelineConfiguration os C pipeline_configuration_path =
     (case check_core_version os pipeline_configuration_path of
        Inl e \<Rightarrow> Inl e
      | Inr u \<Rightarrow>
          (case load_roots_meatadata os C pipeline_configuration_path of
             Inl e \<Rightarrow> Inl e
           | Inr loaded_roots \<Rightarrow>
               (case load_config_metadata os pipeline_configuration_path of
                  Inl e \<Rightarrow> Inl e
                | Inr name \<Rightarrow>
                    (case get_pc_registered_location os pipeline_configuration_path of
                       Inl e \<Rightarrow> Inl e
                     | Inr location \<Rightarrow>
                         Inr \<lparr>pc_root = pipeline_configuration_path, pc_roots = loaded_roots,
                              project_name = name, pc_registered_location = location\<rparr>))))"

section \<open>The tracking service\<close>

text \<open>
  A pipeline-configuration entity as \<^verbatim>\<open>sg.find\<close> returns it, with the fields the source
  asks for. \<open>pc_users\<close> holds the \<^verbatim>\<open>id\<close> of every user of the \<^verbatim>\<open>users\<close> field.
\<close>

record pc_entity =
  pc_code :: "string option"
  pc_users :: "int list option"
  pc_windows_path :: "string option"
  pc_mac_path :: "string option"
  pc_linux_path :: "string option"

record project =
  proj_type :: string
  proj_id :: int

text \<open>The entity \<^verbatim>\<open>sg.find_one(entity_type, [["id", "is", entity_id]], ["project"])\<close> returns.\<close>

record entity =
  ent_project :: "project option"

text \<open>
  The Shotgun connection and \<^verbatim>\<open>login.get_shotgun_user\<close>: \<open>find_by_project\<close> is the
  query with the filter \<^verbatim>\<open>["project", "is", proj]\<close>, \<open>find_by_path\<close> the query with
  the filter \<^verbatim>\<open>[field, "in", path, ...]\<close>, \<open>get_shotgun_user\<close> the \<^verbatim>\<open>id\<close> of the
  current user, if there is one.
\<close>

record sg =
  find_one :: "string \<Rightarrow> int \<Rightarrow> entity option"
  find_by_project :: "project \<Rightarrow> pc_entity list"
  find_by_path :: "path_field \<Rightarrow> string list \<Rightarrow> pc_entity list"
  get_shotgun_user :: "int option"

definition pc_get :: "path_field \<Rightarrow> pc_entity \<Rightarrow> string option" where
  "pc_get f p = (case f of Linux_path \<Rightarrow> pc_linux_path p | Windows_path \<Rightarrow> pc_windows_path p
                 | Mac_path \<Rightarrow> pc_mac_path p)"

section \<open>The active configuration\<close>

text \<open>
  The cleanup of \<^verbatim>\<open>os.environ["TANK_CURRENT_PC"]\<close>, written out in \<^verbatim>\<open>from_entity\<close>
  and again in \<^verbatim>\<open>from_path\<close>:
  \<^verbatim>\<open>if curr_pc_path.endswith(" "): curr_pc_path = curr_pc_path[:-1]
  if curr_pc_path.endswith("\\"): curr_pc_path = curr_pc_path[:-1]\<close>
\<close>

definition cleanup_curr_pc_path :: "string \<Rightarrow> string" where
  "cleanup_curr_pc_path v =
     (let v1 = (if endswith v CHR '' '' then butlast v else v)
      in if endswith v1 backslash then butlast v1 else v1)"

section \<open>Resolution from a path\<close>

text \<open>
  What the resolver does to the outside world, in the order it does it: a call of
  \<^verbatim>\<open>os.path.exists\<close>, the test of \<^verbatim>\<open>os.environ\<close> for the active configuration, the
  reading of the back-mapping file, the calls of the tracking service, and the call of
  the \<^verbatim>\<open>PipelineConfiguration\<close> constructor on a path. What the constructor reads is in
  its definition: files of the configuration and of the running code, and neither the
  tracking service nor \<^verbatim>\<open>TANK_CURRENT_PC\<close>, which it is not given.
\<close>

datatype event =
    Exists string
  | EnvLookup
  | ReadYaml string
  | SgConnect
  | SgFind path_field "string list"
  | SgGetUser
  | Construct string

type_synonym 'a run = "event list \<times> (error + 'a)"

datatype py_arg = Str string | NotStr

text \<open>\<^verbatim>\<open>return PipelineConfiguration(path)\<close> at the end of a run with the log \<open>lg\<close>.\<close>

definition construct ::
  "os \<Rightarrow> constants \<Rightarrow> event list \<Rightarrow> string \<Rightarrow> pipeline_configuration run" where
  "construct os C lg path = (lg @ [Construct path], PipelineConfiguration os C path)"

text \<open>
  Lines 537 to 553: the argument must be a string; the absolute path, or else its parent
  folder, must exist.
\<close>

definition existing_path :: "os \<Rightarrow> py_arg \<Rightarrow> string run" where
  "existing_path os arg =
     (case arg of
        NotStr \<Rightarrow> ([], Inl InvalidInput)
      | Str p \<Rightarrow>
          (let path = path_abspath os p in
           if path_exists os path then ([Exists path], Inr path)
           else
             (let parent_path = path_dirname os path in
              if path_exists os parent_path then ([Exists path, Exists parent_path], Inr parent_path)
              else ([Exists path, Exists parent_path], Inl PathNotFound))))"

text \<open>
  Lines 563 to 575, the \<^verbatim>\<open>while True\<close> loop that walks up to the folder holding the
  back-mapping file. Nothing in the source bounds it: it ends when \<^verbatim>\<open>os.path.dirname\<close>
  reaches a fixed point, and \<open>None\<close> is the run that never ends.
\<close>

partial_function (option) find_config_path ::
  "os \<Rightarrow> constants \<Rightarrow> string \<Rightarrow> event list \<Rightarrow> string run option" where
  "find_config_path os C cur_path lg =
     (let config_path = join os cur_path [''tank'', ''config'', CONFIG_BACK_MAPPING_FILE C];
          lg' = lg @ [Exists config_path]
      in if path_exists os config_path then Some (lg', Inr config_path)
         else
           (let parent_path = path_dirname os cur_path in
            if parent_path = cur_path then Some (lg', Inl NotInProject)
            else find_config_path os C parent_path lg'))"

declare find_config_path.simps [code]

text \<open>
  \<^verbatim>\<open>x.get(sys.platform)\<close> on a row of the back-mapping file, whose keys are
  \<^verbatim>\<open>"darwin"\<close>, \<^verbatim>\<open>"win32"\<close> and \<^verbatim>\<open>"linux2"\<close>.
\<close>

fun row_get :: "platform \<Rightarrow> dict \<Rightarrow> string option" where
  "row_get Darwin x = dict_get x ''darwin''"
| "row_get Win32 x = dict_get x ''win32''"
| "row_get Linux2 x = dict_get x ''linux2''"
| "row_get OtherPlatform x = None"

text \<open>
  Line 589: \<^verbatim>\<open>[x.get(sys.platform) for x in data if x is not None]\<close>. The test is on the
  row, not on the path taken from it.
\<close>

definition current_os_pcs :: "os \<Rightarrow> dict option list \<Rightarrow> string option list" where
  "current_os_pcs os data = map (row_get (sys_platform os)) (List.map_filter (\<lambda>x. x) data)"

text \<open>
  Lines 592 to 595: the paths that exist on disk, in order. \<^verbatim>\<open>os.path.exists(pc)\<close>
  on a \<^verbatim>\<open>pc\<close> that is \<^verbatim>\<open>None\<close> calls \<^verbatim>\<open>os.stat(None)\<close>, which raises
  \<^verbatim>\<open>TypeError\<close>; \<^verbatim>\<open>os.path.exists\<close> catches \<^verbatim>\<open>os.error\<close> only.
\<close>

fun existing_matching_loop ::
  "os \<Rightarrow> string option list \<Rightarrow> string list \<Rightarrow> event list \<Rightarrow> string list run" where
  "existing_matching_loop os [] existing_matching_pcs lg = (lg, Inr existing_matching_pcs)"
| "existing_matching_loop os (None # pcs) existing_matching_pcs lg = (lg, Inl PyTypeError)"
| "existing_matching_loop os (Some pc # pcs) existing_matching_pcs lg =
     existing_matching_loop os pcs
       (if path_exists os pc then existing_matching_pcs @ [pc] else existing_matching_pcs)
       (lg @ [Exists pc])"

text \<open>Lines 646 to 656: the configurations of the query that the current user may use.\<close>

fun find_relevant :: "int option \<Rightarrow> pc_entity list \<Rightarrow> pc_entity list \<Rightarrow> pc_entity list" where
  "find_relevant current_user [] matching_pcs = matching_pcs"
| "find_relevant current_user (p # ps) matching_pcs =
     find_relevant current_user ps
       (case pc_users p of
          None \<Rightarrow> matching_pcs @ [p]
        | Some users \<Rightarrow>
            if length users = 0 then matching_pcs @ [p]
            else
              (case current_user of
                 None \<Rightarrow> matching_pcs
               | Some uid \<Rightarrow> if uid \<in> set users then matching_pcs @ [p] else matching_pcs))"

datatype stage = Root string | Candidates "string list"

text \<open>
  Lines 537 to 595 of \<^verbatim>\<open>from_path\<close>: either the path is a configuration root itself, or
  the back-mapping file above it gives the configurations that exist on disk.
\<close>

definition candidate_stage :: "os \<Rightarrow> constants \<Rightarrow> py_arg \<Rightarrow> stage run option" where
  "candidate_stage os C arg =
     (case existing_path os arg of
        (lg, Inl e) \<Rightarrow> Some (lg, Inl e)
      | (lg, Inr path) \<Rightarrow>
          (let pc_config = join os path [''config'', ''core'', ''pipeline_configuration.yml''];
               lg1 = lg @ [Exists pc_config]
           in if path_exists os pc_config then Some (lg1, Inr (Root path))
              else
                (case find_config_path os C path lg1 of
                   None \<Rightarrow> None
                 | Some (lg2, Inl e) \<Rightarrow> Some (lg2, Inl e)
                 | Some (lg2, Inr config_path) \<Rightarrow>
                     (let lg3 = lg2 @ [ReadYaml config_path] in
                      case read_back_mapping os config_path of
                        OpenError \<Rightarrow> Some (lg3, Inl CorruptConfig)
                      | YamlError \<Rightarrow> Some (lg3, Inl CorruptConfig)
                      | Loaded None \<Rightarrow> Some (lg3, Inl PyTypeError)
                      | Loaded (Some data) \<Rightarrow>
                          (case existing_matching_loop os (current_os_pcs os data) [] lg3 of
                             (lg4, Inl e) \<Rightarrow> Some (lg4, Inl e)
                           | (lg4, Inr existing_matching_pcs) \<Rightarrow>
                               Some (lg4, Inr (Candidates existing_matching_pcs)))))))"

text \<open>
  Lines 597 to 676 of \<^verbatim>\<open>from_path\<close>: the choice among the candidates, and the
  construction of the one chosen. A query result whose path is \<^verbatim>\<open>None\<close> goes to the
  constructor as it is, which fails in its first \<^verbatim>\<open>os.path.join\<close> (with
  \<^verbatim>\<open>AttributeError\<close> in \<^verbatim>\<open>posixpath\<close>). The message for several matching
  configurations is built with \<^verbatim>\<open>", ".join\<close>, which raises \<^verbatim>\<open>TypeError\<close> on a name or
  a path that is \<^verbatim>\<open>None\<close>.
\<close>

definition select_pc ::
  "os \<Rightarrow> string option \<Rightarrow> sg \<Rightarrow> constants \<Rightarrow> string list \<Rightarrow> event list \<Rightarrow>
   pipeline_configuration run" where
  "select_pc os TANK_CURRENT_PC sg C existing_matching_pcs lg =
     (let lg1 = lg @ [EnvLookup] in
      case TANK_CURRENT_PC of
        Some v \<Rightarrow>
          (let curr_pc_path = cleanup_curr_pc_path v in
           if curr_pc_path \<in> set existing_matching_pcs then construct os C lg1 curr_pc_path
           else (lg1, Inl ConfigurationMismatch))
      | None \<Rightarrow>
          (case existing_matching_pcs of
             [pc] \<Rightarrow> construct os C lg1 pc
           | _ \<Rightarrow>
               (let lg2 = lg1 @ [SgConnect] in
                case platform_lookup (sys_platform os) of
                  None \<Rightarrow> (lg2, Inl PyKeyError)
                | Some f \<Rightarrow>
                    (let pipe_configs = find_by_path sg f existing_matching_pcs;
                         current_user = get_shotgun_user sg;
                         lg3 = lg2 @ [SgFind f existing_matching_pcs, SgGetUser];
                         matching_pcs = find_relevant current_user pipe_configs []
                     in case matching_pcs of
                          [] \<Rightarrow> (lg3, Inl NoAccessibleConfiguration)
                        | [p] \<Rightarrow>
                            (case pc_get f p of
                               None \<Rightarrow> (lg3, Inl PyAttributeError)
                             | Some pc_path \<Rightarrow> construct os C lg3 pc_path)
                        | _ \<Rightarrow>
                            if list_all (\<lambda>x. pc_code x \<noteq> None \<and> pc_get f x \<noteq> None) matching_pcs
                            then (lg3, Inl AmbiguousConfiguration)
                            else (lg3, Inl PyTypeError)))))"

definition from_path ::
  "os \<Rightarrow> string option \<Rightarrow> sg \<Rightarrow> constants \<Rightarrow> py_arg \<Rightarrow> pipeline_configuration run option" where
  "from_path os TANK_CURRENT_PC sg C arg =
     (case candidate_stage os C arg of
        None \<Rightarrow> None
      | Some (lg, Inl e) \<Rightarrow> Some (lg, Inl e)
      | Some (lg, Inr (Root path)) \<Rightarrow> Some (construct os C lg path)
      | Some (lg, Inr (Candidates existing_matching_pcs)) \<Rightarrow>
          Some (select_pc os TANK_CURRENT_PC sg C existing_matching_pcs lg))"

section \<open>Resolution from an entity\<close>

text \<open>Lines 450 to 479: no active configuration, so the primary one is taken.\<close>

definition from_entity_primary ::
  "os \<Rightarrow> constants \<Rightarrow> pc_entity list \<Rightarrow> error + pipeline_configuration" where
  "from_entity_primary os C pipe_configs =
     (case List.find (\<lambda>pc. pc_code pc = Some (PRIMARY_PIPELINE_CONFIG_NAME C)) pipe_configs of
        None \<Rightarrow> Inl NoPrimaryConfiguration
      | Some primary_pc \<Rightarrow>
          (case platform_lookup (sys_platform os) of
             None \<Rightarrow> Inl PyKeyError
           | Some f \<Rightarrow>
               (case pc_get f primary_pc of
                  None \<Rightarrow> Inl PlatformPathMissing
                | Some current_os_path \<Rightarrow>
                    if \<not> path_exists os current_os_path then Inl PathNotFound
                    else PipelineConfiguration os C current_os_path)))"

text \<open>Lines 484 to 525: the configuration the command was started from.\<close>

definition from_entity_current ::
  "os \<Rightarrow> constants \<Rightarrow> pc_entity list \<Rightarrow> string \<Rightarrow> error + pipeline_configuration" where
  "from_entity_current os C pipe_configs v =
     (let curr_pc_path = cleanup_curr_pc_path v in
      case get_pc_registered_location os curr_pc_path of
        Inl e \<Rightarrow> Inl e
      | Inr None \<Rightarrow> Inl UnregisteredLocation
      | Inr (Some pc_registered_path) \<Rightarrow>
          (case pipe_configs of
             [] \<Rightarrow> Inl ConfigurationNotInProject
           | _ \<Rightarrow>
               (case platform_lookup (sys_platform os) of
                  None \<Rightarrow> Inl PyKeyError
                | Some f \<Rightarrow>
                    (case List.find (\<lambda>pc. pc_get f pc = Some pc_registered_path) pipe_configs of
                       None \<Rightarrow> Inl ConfigurationNotInProject
                     | Some pc \<Rightarrow> PipelineConfiguration os C pc_registered_path))))"

text \<open>Lines 423 to 430: the project the entity belongs to.\<close>

definition entity_project :: "string \<Rightarrow> int \<Rightarrow> entity \<Rightarrow> error + project" where
  "entity_project entity_type entity_id e =
     (if entity_type = ''Project'' then Inr \<lparr>proj_type = ''Project'', proj_id = entity_id\<rparr>
      else (case ent_project e of None \<Rightarrow> Inl EntityNotLinked | Some proj \<Rightarrow> Inr proj))"

text \<open>\<^verbatim>\<open>from_entity\<close>\<close>

definition from_entity ::
  "os \<Rightarrow> string option \<Rightarrow> sg \<Rightarrow> constants \<Rightarrow> string \<Rightarrow> int \<Rightarrow> error + pipeline_configuration" where
  "from_entity os TANK_CURRENT_PC sg C entity_type entity_id =
     (case find_one sg entity_type entity_id of
        None \<Rightarrow> Inl EntityNotFound
      | Some e \<Rightarrow>
          (case entity_project entity_type entity_id e of
             Inl err \<Rightarrow> Inl err
           | Inr proj \<Rightarrow>
               (let pipe_configs = find_by_project sg proj in
                if length pipe_configs = 0 then Inl NoConfigurationsForProject
                else
                  (case TANK_CURRENT_PC of
                     None \<Rightarrow> from_entity_primary os C pipe_configs
                   | Some v \<Rightarrow> from_entity_current os C pipe_configs v))))"

section \<open>The back-mapping file of a storage\<close>

text \<open>
  The YAML library on the text of a back-mapping file: \<^verbatim>\<open>yaml.load\<close> raises
  (\<open>YamlError\<close>) or gives the document, which is \<^verbatim>\<open>None\<close> for an empty text;
  \<^verbatim>\<open>yaml.dump\<close> gives the text of a sequence of rows.
\<close>

record yaml =
  yaml_load :: "string \<Rightarrow> dict option list option read"
  yaml_dump :: "dict option list \<Rightarrow> string"

text \<open>
  How the write at the end of \<^verbatim>\<open>add_pipeline_configuration\<close> goes:
  \<^verbatim>\<open>open(file, "wt")\<close> raises and leaves the file alone; or it succeeds, which empties
  the file, and an exception follows once \<open>n\<close> characters of the dump have reached
  it; or the dump and the \<^verbatim>\<open>close\<close> complete.
\<close>

datatype write_outcome = OpenFails | DumpFails nat | Completes

text \<open>\<^verbatim>\<open>StorageConfigurationMapping.__init__\<close>: the path of the back-mapping file.\<close>

definition storage_config_file :: "os \<Rightarrow> constants \<Rightarrow> string \<Rightarrow> string" where
  "storage_config_file os C data_root =
     join os data_root [''tank'', ''config'', CONFIG_BACK_MAPPING_FILE C]"

text \<open>
  Lines 358 to 369: the sequence stored so far, \<^verbatim>\<open>[]\<close> when the file does not
  exist. The files are a map from a path to its text.
\<close>

definition read_config_file ::
  "yaml \<Rightarrow> (string \<rightharpoonup> string) \<Rightarrow> string \<Rightarrow> error + dict option list option" where
  "read_config_file Y files config_file =
     (case files config_file of
        None \<Rightarrow> Inr (Some [])
      | Some text \<Rightarrow>
          (case yaml_load Y text of
             Loaded data \<Rightarrow> Inr data
           | _ \<Rightarrow> Inl CorruptConfig))"

text \<open>
  \<^verbatim>\<open>new_item in data\<close> on a sequence: some item is equal to the dictionary; an item
  that is \<^verbatim>\<open>None\<close> is not.
\<close>

definition item_in :: "dict \<Rightarrow> dict option list \<Rightarrow> bool" where
  "item_in new_item data =
     list_ex (\<lambda>x. case x of None \<Rightarrow> False | Some d \<Rightarrow> dict_eq new_item d) data"

text \<open>\<^verbatim>\<open>{"darwin": mac_path, "win32": win_path, "linux2": linux_path}\<close>\<close>

definition new_mapping :: "string option \<Rightarrow> string option \<Rightarrow> string option \<Rightarrow> dict" where
  "new_mapping mac win linux = [(''darwin'', mac), (''win32'', win), (''linux2'', linux)]"

text \<open>
  \<^verbatim>\<open>StorageConfigurationMapping.add_pipeline_configuration\<close>, from the files before to the
  files after and the result. \<^verbatim>\<open>new_item not in data\<close> raises \<^verbatim>\<open>TypeError\<close> on the
  document \<^verbatim>\<open>None\<close>.
\<close>

definition add_pipeline_configuration ::
  "yaml \<Rightarrow> write_outcome \<Rightarrow> string \<Rightarrow> (string \<rightharpoonup> string) \<Rightarrow>
   string option \<Rightarrow> string option \<Rightarrow> string option \<Rightarrow> (string \<rightharpoonup> string) \<times> (error + unit)" where
  "add_pipeline_configuration Y w config_file files mac win linux =
     (case read_config_file Y files config_file of
        Inl e \<Rightarrow> (files, Inl e)
      | Inr None \<Rightarrow> (files, Inl PyTypeError)
      | Inr (Some data) \<Rightarrow>
          (let new_item = new_mapping mac win linux;
               data' = (if \<not> item_in new_item data then data @ [Some new_item] else data)
           in case w of
                OpenFails \<Rightarrow> (files, Inl WriteFailure)
              | DumpFails n \<Rightarrow>
                  (files(config_file \<mapsto> take n (yaml_dump Y data')), Inl WriteFailure)
              | Completes \<Rightarrow> (files(config_file \<mapsto> yaml_dump Y data'), Inr ())))"

section \<open>A posix machine for the scenarios\<close>

text \<open>\<^verbatim>\<open>posixpath.dirname\<close>\<close>

definition posixpath_dirname :: "string \<Rightarrow> string" where
  "posixpath_dirname p =
     (let head = rev (dropWhile (\<lambda>c. c \<noteq> CHR ''/'') (rev p)) in
      if head \<noteq> [] \<and> \<not> list_all (\<lambda>c. c = CHR ''/'') head
      then rev (dropWhile (\<lambda>c. c = CHR ''/'') (rev head))
      else head)"

text \<open>
  A linux machine with the given existing paths and the given readable files of the
  three kinds; no other file can be opened, paths are absolute already, and no version
  is older than another.
\<close>

definition linux_machine ::
  "string list \<Rightarrow> (string \<times> dict) list \<Rightarrow> (string \<times> raw_roots) list \<Rightarrow>
   (string \<times> dict option list option) list \<Rightarrow> os" where
  "linux_machine existing dicts roots_files back =
     \<lparr>sys_platform = Linux2, path_sep = CHR ''/'',
      path_exists = (\<lambda>p. p \<in> set existing),
      path_abspath = (\<lambda>p. p),
      path_dirname = posixpath_dirname,
      path_join = posixpath_join,
      module_file = ''/tank/install/core/python/tank/pipelineconfig.py'',
      environ_TANK_INSTALL_LOCATION = None,
      is_version_older = (\<lambda>a b. False),
      read_dict = (\<lambda>p. case map_of dicts p of None \<Rightarrow> OpenError | Some d \<Rightarrow> Loaded (Some d)),
      read_roots = (\<lambda>p. case map_of roots_files p of None \<Rightarrow> OpenError | Some d \<Rightarrow> Loaded (Some d)),
      read_back_mapping = (\<lambda>p. case map_of back p of None \<Rightarrow> OpenError | Some d \<Rightarrow> Loaded d)\<rparr>"

text \<open>Values for the constants, used in the scenarios only.\<close>

definition tank_constants :: constants where
  "tank_constants =
     \<lparr>PRIMARY_STORAGE_NAME = ''primary'', PRIMARY_PIPELINE_CONFIG_NAME = ''Primary'',
      CONFIG_BACK_MAPPING_FILE = ''pipeline_configurations.yml''\<rparr>"

text \<open>
  The same machine with one readable \<^verbatim>\<open>roots.yml\<close>, that of the configuration
  \<^verbatim>\<open>/pc\<close>.
\<close>

definition roots_machine :: "raw_roots \<Rightarrow> os" where
  "roots_machine data = linux_machine [] [] [(''/pc/config/core/roots.yml'', data)] []"

text \<open>
  The same machine with a project in \<^verbatim>\<open>/proj\<close>, whose back-mapping file holds the given
  rows, and three configurations on disk, each with its \<^verbatim>\<open>pipeline_configuration.yml\<close>,
  \<^verbatim>\<open>roots.yml\<close> and \<^verbatim>\<open>install_location.yml\<close>. Those of A and B are complete; the
  \<^verbatim>\<open>roots.yml\<close> of C has no primary storage.
\<close>

definition studio_roots :: raw_roots where
  "studio_roots =
     [(''primary'', Some [(''mac_path'', None), (''linux_path'', Some ''/studio/''), (''windows_path'', None)])]"

definition project_machine :: "dict option list \<Rightarrow> os" where
  "project_machine data =
     linux_machine
       [''/proj'', ''/proj/tank/config/pipeline_configurations.yml'',
        ''/studio/pcA'', ''/studio/pcB'', ''/studio/pcC'',
        ''/studio/pcA/config/core/pipeline_configuration.yml'',
        ''/studio/pcB/config/core/pipeline_configuration.yml'',
        ''/studio/pcC/config/core/pipeline_configuration.yml'',
        ''/studio/pcA/config/core/install_location.yml'',
        ''/studio/pcB/config/core/install_location.yml'',
        ''/studio/pcC/config/core/install_location.yml'',
        ''/studio/pcA/config/core/roots.yml'',
        ''/studio/pcB/config/core/roots.yml'',
        ''/studio/pcC/config/core/roots.yml'']
       [(''/studio/pcA/config/core/pipeline_configuration.yml'', [(''project_name'', Some ''demo'')]),
        (''/studio/pcB/config/core/pipeline_configuration.yml'', [(''project_name'', Some ''demo'')]),
        (''/studio/pcC/config/core/pipeline_configuration.yml'', [(''project_name'', Some ''demo'')]),
        (''/studio/pcA/config/core/install_location.yml'',
           [(''Linux'', Some ''/studio/pcA''), (''Windows'', None), (''Darwin'', None)]),
        (''/studio/pcB/config/core/install_location.yml'',
           [(''Linux'', Some ''/studio/pcB''), (''Windows'', None), (''Darwin'', None)]),
        (''/studio/pcC/config/core/install_location.yml'',
           [(''Linux'', Some ''/studio/pcC''), (''Windows'', None), (''Darwin'', None)])]
       [(''/studio/pcA/config/core/roots.yml'', studio_roots),
        (''/studio/pcB/config/core/roots.yml'', studio_roots),
        (''/studio/pcC/config/core/roots.yml'',
           [(''textures'', Some [(''mac_path'', None), (''linux_path'', Some ''/tex''), (''windows_path'', None)])])]
       [(''/proj/tank/config/pipeline_configurations.yml'', Some data)]"

text \<open>The object the constructor builds for the configurations A and B of that machine.\<close>

definition studio_handle :: "string \<Rightarrow> pipeline_configuration" where
  "studio_handle root =
     \<lparr>pc_root = root,
      pc_roots = [(''primary'', \<lparr>mac_path = None, linux_path = Some ''/studio'', windows_path = None\<rparr>)],
      project_name = ''demo'',
      pc_registered_location = Some root\<rparr>"

text \<open>
  A tracking service over a list of pipeline-configuration entities, all of one project,
  that answers the path query with the entities whose path is among those asked for.
\<close>

definition tracking_service :: "pc_entity list \<Rightarrow> int option \<Rightarrow> sg" where
  "tracking_service db user =
     \<lparr>find_one = (\<lambda>t i. Some \<lparr>ent_project = Some \<lparr>proj_type = ''Project'', proj_id = 1\<rparr>\<rparr>),
      find_by_project = (\<lambda>proj. db),
      find_by_path =
        (\<lambda>f paths. filter (\<lambda>p. case pc_get f p of None \<Rightarrow> False | Some x \<Rightarrow> x \<in> set paths) db),
      get_shotgun_user = user\<rparr>"

definition linux_pc :: "string option \<Rightarrow> string \<Rightarrow> int list option \<Rightarrow> pc_entity" where
  "linux_pc name path users =
     \<lparr>pc_code = name, pc_users = users, pc_windows_path = None, pc_mac_path = None,
      pc_linux_path = Some path\<rparr>"

text \<open>The row that \<^verbatim>\<open>add_pipeline_configuration(None, None, path)\<close> stores.\<close>

definition linux_row :: "string \<Rightarrow> dict" where
  "linux_row path = new_mapping None None (Some path)"

text \<open>
  The events of that machine up to the reading of the back-mapping file, for a path
  resolution that starts at \<^verbatim>\<open>/proj\<close>.
\<close>

definition proj_log :: "event list" where
  "proj_log = [Exists ''/proj'', Exists ''/proj/config/core/pipeline_configuration.yml'',
               Exists ''/proj/tank/config/pipeline_configurations.yml'',
               ReadYaml ''/proj/tank/config/pipeline_configurations.yml'']"

text \<open>
  A YAML library that knows the documents of a table: it dumps a sequence of the table
  to its text and loads a text of the table to its sequence. The empty text is the null
  document, and no other text parses.
\<close>

definition text_A :: string where
  "text_A = ''- {darwin: null, linux2: /studio/pcA, win32: null}''"

definition text_AB :: string where
  "text_AB = ''- {darwin: null, linux2: /studio/pcA, win32: null} - {darwin: null, linux2: /studio/pcB, win32: null}''"

definition text_L :: string where
  "text_L = ''- {linux2: /studio/pcB}''"

definition text_LB :: string where
  "text_LB = ''- {linux2: /studio/pcB} - {darwin: null, linux2: /studio/pcB, win32: null}''"

definition yaml_table :: "(string \<times> dict option list) list" where
  "yaml_table =
     [(''[]'', []),
      (text_A, [Some (linux_row ''/studio/pcA'')]),
      (text_AB, [Some (linux_row ''/studio/pcA''), Some (linux_row ''/studio/pcB'')]),
      (text_L, [Some [(''linux2'', Some ''/studio/pcB'')]]),
      (text_LB, [Some [(''linux2'', Some ''/studio/pcB'')], Some (linux_row ''/studio/pcB'')])]"

definition small_yaml :: yaml where
  "small_yaml =
     \<lparr>yaml_load =
        (\<lambda>text. case map_of yaml_table text of
                  Some data \<Rightarrow> Loaded (Some data)
                | None \<Rightarrow> if text = [] then Loaded None else YamlError),
      yaml_dump =
        (\<lambda>data. case List.find (\<lambda>(text, d). d = data) yaml_table of
                  Some (text, d) \<Rightarrow> text
                | None \<Rightarrow> ''?'')\<rparr>"

section \<open>The properties in the words of the specification\<close>

text \<open>A path that is present and ends with the separator \<open>c\<close>.\<close>

definition has_trailing :: "char \<Rightarrow> string option \<Rightarrow> bool" where
  "has_trailing c p = (case p of None \<Rightarrow> False | Some s \<Rightarrow> endswith s c)"

text \<open>No path of the roots ends with its separator.\<close>

definition no_trailing_separator :: "roots \<Rightarrow> bool" where
  "no_trailing_separator rs =
     list_all (\<lambda>(s, e). \<not> has_trailing CHR ''/'' (mac_path e) \<and>
                        \<not> has_trailing CHR ''/'' (linux_path e) \<and>
                        \<not> has_trailing backslash (windows_path e)) rs"



text \<open>The events that consult the tracking service.\<close>

fun is_sg_event :: "event \<Rightarrow> bool" where
  "is_sg_event SgConnect = True"
| "is_sg_event (SgFind f paths) = True"
| "is_sg_event SgGetUser = True"
| "is_sg_event _ = False"

text \<open>A log with no call of the tracking service and no look at the environment.\<close>

definition fs_only :: "event list \<Rightarrow> bool" where
  "fs_only lg = list_all (\<lambda>e. \<not> is_sg_event e \<and> e \<noteq> EnvLookup) lg"



section \<open>Helper lemmas\<close>

lemma roots_machine_simps:
  "sys_platform (roots_machine d) = Linux2"
  "path_sep (roots_machine d) = CHR ''/''"
  "path_join (roots_machine d) = posixpath_join"
  "read_roots (roots_machine d) p = (if p = ''/pc/config/core/roots.yml'' then Loaded (Some d) else OpenError)"
  by (simp_all add: roots_machine_def linux_machine_def)



lemma project_machine_simps:
  "sys_platform (project_machine d) = Linux2"
  "path_sep (project_machine d) = CHR ''/''"
  "path_abspath (project_machine d) p = p"
  "path_dirname (project_machine d) = posixpath_dirname"
  "path_join (project_machine d) = posixpath_join"
  "path_exists (project_machine d) p =
     (p \<in> set [''/proj'', ''/proj/tank/config/pipeline_configurations.yml'',
        ''/studio/pcA'', ''/studio/pcB'', ''/studio/pcC'',
        ''/studio/pcA/config/core/pipeline_configuration.yml'',
        ''/studio/pcB/config/core/pipeline_configuration.yml'',
        ''/studio/pcC/config/core/pipeline_configuration.yml'',
        ''/studio/pcA/config/core/install_location.yml'',
        ''/studio/pcB/config/core/install_location.yml'',
        ''/studio/pcC/config/core/install_location.yml'',
        ''/studio/pcA/config/core/roots.yml'',
        ''/studio/pcB/config/core/roots.yml'',
        ''/studio/pcC/config/core/roots.yml''])"
  "read_back_mapping (project_machine d) p =
     (if p = ''/proj/tank/config/pipeline_configurations.yml'' then Loaded (Some d) else OpenError)"
  by (simp_all add: project_machine_def linux_machine_def)

lemma tracking_service_simps:
  "find_one (tracking_service db u) t i = Some \<lparr>ent_project = Some \<lparr>proj_type = ''Project'', proj_id = 1\<rparr>\<rparr>"
  "find_by_project (tracking_service db u) proj = db"
  "find_by_path (tracking_service db u) f paths =
     filter (\<lambda>p. case pc_get f p of None \<Rightarrow> False | Some x \<Rightarrow> x \<in> set paths) db"
  "get_shotgun_user (tracking_service db u) = u"
  by (simp_all add: tracking_service_def)

lemma linux_pc_simps:
  "pc_get Linux_path (linux_pc n p u) = Some p"
  "pc_code (linux_pc n p u) = n"
  "pc_users (linux_pc n p u) = u"
  by (simp_all add: linux_pc_def pc_get_def)

lemma construct_A:
  "PipelineConfiguration (project_machine d) tank_constants ''/studio/pcA''
     = Inr (studio_handle ''/studio/pcA'')"
  by (simp add: PipelineConfiguration_def check_core_version_def get_core_version_def
      load_roots_meatadata_def load_config_metadata_def get_pc_registered_location_def
      join_def project_machine_def linux_machine_def posixpath_join_def tank_constants_def
      studio_roots_def strip_storage_def strip_trailing_def endswith_def dict_get_def data_get_def
      studio_handle_def)

lemma construct_B:
  "PipelineConfiguration (project_machine d) tank_constants ''/studio/pcB''
     = Inr (studio_handle ''/studio/pcB'')"
  by (simp add: PipelineConfiguration_def check_core_version_def get_core_version_def
      load_roots_meatadata_def load_config_metadata_def get_pc_registered_location_def
      join_def project_machine_def linux_machine_def posixpath_join_def tank_constants_def
      studio_roots_def strip_storage_def strip_trailing_def endswith_def dict_get_def data_get_def
      studio_handle_def)

lemma construct_C:
  "PipelineConfiguration (project_machine d) tank_constants ''/studio/pcC'' = Inl MissingPrimaryStorage"
  by (simp add: PipelineConfiguration_def check_core_version_def get_core_version_def
      load_roots_meatadata_def join_def project_machine_def linux_machine_def posixpath_join_def
      tank_constants_def)

lemma candidates_A_B:
  "candidate_stage (project_machine [Some (linux_row ''/studio/pcA''), Some (linux_row ''/studio/pcB'')])
     tank_constants (Str ''/proj'')
   = Some (proj_log @ [Exists ''/studio/pcA'', Exists ''/studio/pcB''],
           Inr (Candidates [''/studio/pcA'', ''/studio/pcB'']))"
  by (simp add: candidate_stage_def existing_path_def posixpath_dirname_def
      posixpath_join_def tank_constants_def find_config_path.simps current_os_pcs_def
      Let_def project_machine_simps join_def linux_row_def new_mapping_def dict_get_def proj_log_def)

lemma candidates_A_C:
  "candidate_stage (project_machine [Some (linux_row ''/studio/pcA''), Some (linux_row ''/studio/pcC'')])
     tank_constants (Str ''/proj'')
   = Some (proj_log @ [Exists ''/studio/pcA'', Exists ''/studio/pcC''],
           Inr (Candidates [''/studio/pcA'', ''/studio/pcC'']))"
  by (simp add: candidate_stage_def existing_path_def posixpath_dirname_def
      posixpath_join_def tank_constants_def find_config_path.simps current_os_pcs_def
      Let_def project_machine_simps join_def linux_row_def new_mapping_def dict_get_def proj_log_def)


lemma find_first:
  "\<forall>x \<in> set before. \<not> P x \<Longrightarrow> P pc \<Longrightarrow> List.find P (before @ pc # after) = Some pc"
  by (induction before) auto

lemma find_none: "\<forall>x \<in> set xs. \<not> P x \<Longrightarrow> List.find P xs = None"
  by (induction xs) auto


lemma constructed_root:
  assumes "PipelineConfiguration os C path = Inr pc"
  shows "pc_root pc = path"
    and "read_dict os (join os path [''config'', ''core'', ''pipeline_configuration.yml'']) \<noteq> OpenError"
  using assms
  by (auto simp: PipelineConfiguration_def load_config_metadata_def Let_def
      split: sum.splits read.splits option.splits)


lemma fs_only_simps [simp]:
  "fs_only []"
  "fs_only (lg @ lg') = (fs_only lg \<and> fs_only lg')"
  "fs_only (Exists p # lg) = fs_only lg"
  "fs_only (ReadYaml p # lg) = fs_only lg"
  by (auto simp: fs_only_def)

lemma existing_matching_loop_log:
  "existing_matching_loop os pcs acc lg = (lg', r) \<Longrightarrow> fs_only lg \<Longrightarrow> fs_only lg'"
  by (induction os pcs acc lg rule: existing_matching_loop.induct) auto

lemma existing_matching_loop_exist:
  "existing_matching_loop os pcs acc lg = (lg', Inr cs) \<Longrightarrow>
     cs = acc @ filter (path_exists os) (List.map_filter (\<lambda>x. x) pcs) \<and> None \<notin> set pcs"
  by (induction os pcs acc lg rule: existing_matching_loop.induct)
     (auto simp: List.map_filter_simps)

lemma find_config_path_log_aux:
  assumes "find_config_path os C cur lg = Some y"
  shows "fs_only lg \<longrightarrow> fs_only (fst y)"
proof (rule find_config_path.raw_induct
    [where P = "\<lambda>os C cur lg y. fs_only lg \<longrightarrow> fs_only (fst y)", OF _ assms])
  fix f and os :: os and C :: constants and cur lg y
  assume ih: "\<And>os C cur lg y. f os C cur lg = Some y \<Longrightarrow> fs_only lg \<longrightarrow> fs_only (fst y)"
    and step: "(let config_path = join os cur [''tank'', ''config'', CONFIG_BACK_MAPPING_FILE C];
          lg' = lg @ [Exists config_path]
      in if path_exists os config_path then Some (lg', Inr config_path)
         else let parent_path = path_dirname os cur
              in if parent_path = cur then Some (lg', Inl NotInProject)
                 else f os C parent_path lg') = Some y"
  show "fs_only lg \<longrightarrow> fs_only (fst y)"
    using step ih by (auto simp: Let_def split: if_splits)
qed

lemma find_config_path_log:
  "find_config_path os C cur lg = Some (lg', r) \<Longrightarrow> fs_only lg \<Longrightarrow> fs_only lg'"
  using find_config_path_log_aux by fastforce

lemma existing_path_log: "existing_path os arg = (lg, r) \<Longrightarrow> fs_only lg"
  by (auto simp: existing_path_def Let_def split: py_arg.splits if_splits)


lemma candidate_stage_log:
  assumes "candidate_stage os C arg = Some (lg, r)"
  shows "fs_only lg"
  using assms
  by (auto simp: candidate_stage_def Let_def
      split: prod.splits sum.splits if_splits option.splits read.splits
      dest!: existing_path_log find_config_path_log existing_matching_loop_log)


lemma candidate_stage_candidates:
  assumes "candidate_stage os C arg = Some (lg, Inr (Candidates cs))"
  shows "\<exists>data. cs = filter (path_exists os) (List.map_filter (\<lambda>x. x) (current_os_pcs os data)) \<and>
           None \<notin> set (current_os_pcs os data)"
  using assms
  by (auto simp: candidate_stage_def Let_def
      split: prod.splits sum.splits if_splits option.splits read.splits
      dest!: existing_matching_loop_exist)

lemma candidates_exist:
  assumes "candidate_stage os C arg = Some (lg, Inr (Candidates cs))"
  shows "list_all (path_exists os) cs"
  using candidate_stage_candidates [OF assms] by (auto simp: list_all_iff)




lemma cleanup_cases:
  "cleanup_curr_pc_path (u @ [backslash, CHR '' '']) = u"
  "\<not> endswith u backslash \<Longrightarrow> cleanup_curr_pc_path (u @ '' '') = u"
  "cleanup_curr_pc_path (u @ [backslash]) = u"
  "\<not> endswith v CHR '' '' \<Longrightarrow> \<not> endswith v backslash \<Longrightarrow> cleanup_curr_pc_path v = v"
  by (auto simp: cleanup_curr_pc_path_def endswith_def backslash_def butlast_append)

lemma small_yaml_simps:
  "yaml_dump small_yaml [] = ''[]''"
  "yaml_dump small_yaml [Some (linux_row ''/studio/pcA'')] = text_A"
  "yaml_dump small_yaml [Some (linux_row ''/studio/pcA''), Some (linux_row ''/studio/pcB'')] = text_AB"
  "yaml_dump small_yaml [Some [(''linux2'', Some ''/studio/pcB'')]] = text_L"
  "yaml_dump small_yaml [Some [(''linux2'', Some ''/studio/pcB'')], Some (linux_row ''/studio/pcB'')] = text_LB"
  "yaml_load small_yaml ''[]'' = Loaded (Some [])"
  "yaml_load small_yaml text_A = Loaded (Some [Some (linux_row ''/studio/pcA'')])"
  "yaml_load small_yaml text_AB
     = Loaded (Some [Some (linux_row ''/studio/pcA''), Some (linux_row ''/studio/pcB'')])"
  "yaml_load small_yaml text_L = Loaded (Some [Some [(''linux2'', Some ''/studio/pcB'')]])"
  "yaml_load small_yaml text_LB
     = Loaded (Some [Some [(''linux2'', Some ''/studio/pcB'')], Some (linux_row ''/studio/pcB'')])"
  "yaml_load small_yaml [] = Loaded None"
  "yaml_load small_yaml ''{'' = YamlError"
  by (simp_all add: small_yaml_def yaml_table_def linux_row_def new_mapping_def
      text_A_def text_AB_def text_L_def text_LB_def)

section \<open>C1: entity resolution without an active configuration\<close>

text \<open>
  C1, as the code has it. Take a run of \<^verbatim>\<open>from_entity\<close> with \<^verbatim>\<open>TANK_CURRENT_PC\<close> not
  set that gets as far as the choice of the configuration: the entity exists, it has a
  project, and the project has at least one pipeline configuration. If no configuration
  of the project has the primary name as its code, the run fails with
  \<open>NoPrimaryConfiguration\<close>. Otherwise the first configuration with that code is
  selected. On a platform that the platform table of line 413 does not know, the run
  then fails with the \<^verbatim>\<open>KeyError\<close> of the runtime. On a supported platform, the run
  fails with \<open>PlatformPathMissing\<close> if the selected configuration has no path for the
  platform; it fails with \<open>PathNotFound\<close> if that path does not exist on disk; and
  otherwise it constructs the pipeline configuration at exactly that path, so that it
  succeeds when the construction does, with an object rooted at that path, and fails as
  the construction fails when it does not.
\<close>

theorem from_entity_primary_configuration:
  assumes "find_one sg entity_type entity_id = Some e"
    and "entity_project entity_type entity_id e = Inr proj"
    and "find_by_project sg proj = pipe_configs"
    and "pipe_configs \<noteq> []"
    and "result = from_entity os None sg C entity_type entity_id"
  shows "((\<forall>pc \<in> set pipe_configs. pc_code pc \<noteq> Some (PRIMARY_PIPELINE_CONFIG_NAME C)) \<longrightarrow>
            result = Inl NoPrimaryConfiguration) \<and>
         (\<forall>before primary_pc after.
            pipe_configs = before @ primary_pc # after \<and>
            (\<forall>pc \<in> set before. pc_code pc \<noteq> Some (PRIMARY_PIPELINE_CONFIG_NAME C)) \<and>
            pc_code primary_pc = Some (PRIMARY_PIPELINE_CONFIG_NAME C) \<longrightarrow>
              (platform_lookup (sys_platform os) = None \<longrightarrow> result = Inl PyKeyError) \<and>
              (\<forall>f. platform_lookup (sys_platform os) = Some f \<longrightarrow>
                 (pc_get f primary_pc = None \<longrightarrow> result = Inl PlatformPathMissing) \<and>
                 (\<forall>path. pc_get f primary_pc = Some path \<longrightarrow>
                    (\<not> path_exists os path \<longrightarrow> result = Inl PathNotFound) \<and>
                    (path_exists os path \<longrightarrow>
                       result = PipelineConfiguration os C path \<and>
                       (\<forall>pc. result = Inr pc \<longrightarrow> pc_root pc = path)))))"
proof -
  have r: "result = from_entity_primary os C pipe_configs"
    using assms by (simp add: from_entity_def)
  have a: "result = Inl NoPrimaryConfiguration"
    if "\<forall>pc \<in> set pipe_configs. pc_code pc \<noteq> Some (PRIMARY_PIPELINE_CONFIG_NAME C)"
    using that by (simp add: r from_entity_primary_def find_none)
  have b: "(platform_lookup (sys_platform os) = None \<longrightarrow> result = Inl PyKeyError) \<and>
           (\<forall>f. platform_lookup (sys_platform os) = Some f \<longrightarrow>
              (pc_get f primary_pc = None \<longrightarrow> result = Inl PlatformPathMissing) \<and>
              (\<forall>path. pc_get f primary_pc = Some path \<longrightarrow>
                 (\<not> path_exists os path \<longrightarrow> result = Inl PathNotFound) \<and>
                 (path_exists os path \<longrightarrow>
                    result = PipelineConfiguration os C path \<and>
                    (\<forall>pc. result = Inr pc \<longrightarrow> pc_root pc = path))))"
    if "pipe_configs = before @ primary_pc # after"
      and "\<forall>pc \<in> set before. pc_code pc \<noteq> Some (PRIMARY_PIPELINE_CONFIG_NAME C)"
      and "pc_code primary_pc = Some (PRIMARY_PIPELINE_CONFIG_NAME C)"
    for before primary_pc after
  proof -
    have "List.find (\<lambda>pc. pc_code pc = Some (PRIMARY_PIPELINE_CONFIG_NAME C)) pipe_configs = Some primary_pc"
      unfolding that(1) using that(2,3) by (intro find_first) auto
    then show ?thesis
      by (auto simp: r from_entity_primary_def dest: constructed_root(1))
  qed
  show ?thesis
    using a b by blast
qed

theorem from_entity_primary_configuration_witness:
  "from_entity (project_machine []) None
     (tracking_service [linux_pc (Some ''Dev'') ''/studio/pcB'' None,
                        linux_pc (Some ''Primary'') ''/studio/pcA'' None] None)
     tank_constants ''Shot'' 7 = Inr (studio_handle ''/studio/pcA'')"
proof -
  let ?db = "[linux_pc (Some ''Dev'') ''/studio/pcB'' None, linux_pc (Some ''Primary'') ''/studio/pcA'' None]"
  let ?sg = "tracking_service ?db None"
  have 1: "find_one ?sg ''Shot'' 7 = Some \<lparr>ent_project = Some \<lparr>proj_type = ''Project'', proj_id = 1\<rparr>\<rparr>"
    by (simp add: tracking_service_simps)
  have 2: "entity_project ''Shot'' 7 \<lparr>ent_project = Some \<lparr>proj_type = ''Project'', proj_id = 1\<rparr>\<rparr>
             = Inr \<lparr>proj_type = ''Project'', proj_id = 1\<rparr>"
    by (simp add: entity_project_def)
  have 3: "find_by_project ?sg \<lparr>proj_type = ''Project'', proj_id = 1\<rparr> = ?db"
    by (simp add: tracking_service_simps)
  have 4: "?db \<noteq> []" by simp
  have 5: "?db = [linux_pc (Some ''Dev'') ''/studio/pcB'' None] @ linux_pc (Some ''Primary'') ''/studio/pcA'' None # []"
    by simp
  have 6: "\<forall>pc \<in> set [linux_pc (Some ''Dev'') ''/studio/pcB'' None].
             pc_code pc \<noteq> Some (PRIMARY_PIPELINE_CONFIG_NAME tank_constants)"
    by (simp add: linux_pc_simps tank_constants_def)
  have 7: "pc_code (linux_pc (Some ''Primary'') ''/studio/pcA'' None)
             = Some (PRIMARY_PIPELINE_CONFIG_NAME tank_constants)"
    by (simp add: linux_pc_simps tank_constants_def)
  have 8: "platform_lookup (sys_platform (project_machine [])) = Some Linux_path"
    by (simp add: project_machine_simps)
  have 9: "pc_get Linux_path (linux_pc (Some ''Primary'') ''/studio/pcA'' None) = Some ''/studio/pcA''"
    by (simp add: linux_pc_simps)
  have 10: "path_exists (project_machine []) ''/studio/pcA''"
    by (simp add: project_machine_simps)
  from from_entity_primary_configuration [OF 1 2 3 4 refl, where os = "project_machine []" and C = tank_constants]
  have "\<forall>before primary_pc after.
            ?db = before @ primary_pc # after \<and>
            (\<forall>pc \<in> set before. pc_code pc \<noteq> Some (PRIMARY_PIPELINE_CONFIG_NAME tank_constants)) \<and>
            pc_code primary_pc = Some (PRIMARY_PIPELINE_CONFIG_NAME tank_constants) \<longrightarrow>
              (\<forall>f. platform_lookup (sys_platform (project_machine [])) = Some f \<longrightarrow>
                 (\<forall>path. pc_get f primary_pc = Some path \<longrightarrow>
                    (path_exists (project_machine []) path \<longrightarrow>
                       from_entity (project_machine []) None ?sg tank_constants ''Shot'' 7
                         = PipelineConfiguration (project_machine []) tank_constants path)))"
    by blast
  from this [rule_format, of "[linux_pc (Some ''Dev'') ''/studio/pcB'' None]"
      "linux_pc (Some ''Primary'') ''/studio/pcA'' None" "[]" Linux_path "''/studio/pcA''"]
  have "from_entity (project_machine []) None ?sg tank_constants ''Shot'' 7
          = PipelineConfiguration (project_machine []) tank_constants ''/studio/pcA''"
    using 5 6 7 8 9 10 by blast
  then show ?thesis
    by (simp add: construct_A)
qed

text \<open>
  C1 as stated fails twice. The primary configuration of the first run has a path for
  linux that exists on disk, and the run fails all the same: its \<^verbatim>\<open>roots.yml\<close> names no
  primary storage, and the constructor raises. The second run is on a platform that the
  platform table does not know: line 466 raises \<^verbatim>\<open>KeyError\<close>, which is none of the
  failures of the claim.
\<close>

theorem from_entity_primary_counterexample:
  "pc_get Linux_path (linux_pc (Some ''Primary'') ''/studio/pcC'' None) = Some ''/studio/pcC'' \<and>
   path_exists (project_machine []) ''/studio/pcC'' \<and>
   from_entity (project_machine []) None
     (tracking_service [linux_pc (Some ''Primary'') ''/studio/pcC'' None] None)
     tank_constants ''Shot'' 7 = Inl MissingPrimaryStorage \<and>
   from_entity ((project_machine []) \<lparr>sys_platform := OtherPlatform\<rparr>) None
     (tracking_service [linux_pc (Some ''Primary'') ''/studio/pcA'' None] None)
     tank_constants ''Shot'' 7 = Inl PyKeyError"
  by (simp add: from_entity_def from_entity_primary_def entity_project_def tracking_service_simps
      linux_pc_simps project_machine_simps tank_constants_def
      construct_C [unfolded tank_constants_def])

section \<open>C2: path resolution among several candidates\<close>




section \<open>C3: path resolution with an active configuration\<close>

text \<open>
  C3, as the code has it. Take a run of \<^verbatim>\<open>from_path\<close> with \<^verbatim>\<open>TANK_CURRENT_PC\<close> set
  that reaches the candidates. If the cleaned-up value of the variable is one of the
  candidates, the run constructs the pipeline configuration at that value: it succeeds
  when the construction does, with an object rooted there, and fails as the construction
  fails when it does not. If the value is not one of the candidates, the run fails with
  \<open>ConfigurationMismatch\<close>. So the run succeeds only if the value is a candidate. Every
  candidate exists on disk, and the run, to its last event, never calls the tracking
  service.
\<close>

theorem from_path_active_configuration:
  assumes "candidate_stage os C arg = Some (lg, Inr (Candidates existing_matching_pcs))"
    and "curr_pc_path = cleanup_curr_pc_path v"
    and "result = from_path os (Some v) sg C arg"
  shows "(curr_pc_path \<in> set existing_matching_pcs \<longrightarrow>
            result = Some (lg @ [EnvLookup, Construct curr_pc_path],
                           PipelineConfiguration os C curr_pc_path)) \<and>
         (curr_pc_path \<notin> set existing_matching_pcs \<longrightarrow>
            result = Some (lg @ [EnvLookup], Inl ConfigurationMismatch)) \<and>
         (\<forall>lg' pc. result = Some (lg', Inr pc) \<longrightarrow>
            curr_pc_path \<in> set existing_matching_pcs \<and> pc_root pc = curr_pc_path) \<and>
         (\<forall>lg' r. result = Some (lg', r) \<longrightarrow> list_all (\<lambda>e. \<not> is_sg_event e) lg') \<and>
         list_all (path_exists os) existing_matching_pcs"
proof -
  have "fs_only lg"
    using assms(1) by (rule candidate_stage_log)
  then have sg: "list_all (\<lambda>e. \<not> is_sg_event e) (lg @ [EnvLookup] @ extra)"
    if "list_all (\<lambda>e. \<not> is_sg_event e) extra" for extra
    using that by (auto simp: fs_only_def list_all_iff)
  have r: "result = Some (select_pc os (Some v) sg C existing_matching_pcs lg)"
    using assms(1) by (simp add: assms(3) from_path_def)
  show ?thesis
  proof (cases "curr_pc_path \<in> set existing_matching_pcs")
    case True
    then have "result = Some (lg @ [EnvLookup, Construct curr_pc_path],
                              PipelineConfiguration os C curr_pc_path)"
      using assms(2) by (simp add: r select_pc_def construct_def Let_def)
    then show ?thesis
      using True sg [of "[Construct curr_pc_path]"] candidates_exist [OF assms(1)]
      by (auto dest: constructed_root(1))
  next
    case False
    then have "result = Some (lg @ [EnvLookup], Inl ConfigurationMismatch)"
      using assms(2) by (simp add: r select_pc_def Let_def)
    then show ?thesis
      using False sg [of "[]"] candidates_exist [OF assms(1)]
      by auto
  qed
qed

theorem from_path_active_configuration_witness:
  "from_path (project_machine [Some (linux_row ''/studio/pcA''), Some (linux_row ''/studio/pcB'')])
     (Some ''/studio/pcB '') (tracking_service [] None) tank_constants (Str ''/proj'')
   = Some (proj_log @ [Exists ''/studio/pcA'', Exists ''/studio/pcB'', EnvLookup,
                       Construct ''/studio/pcB''],
           Inr (studio_handle ''/studio/pcB'')) \<and>
   from_path (project_machine [Some (linux_row ''/studio/pcA''), Some (linux_row ''/studio/pcB'')])
     (Some ''/studio/pcD'') (tracking_service [] None) tank_constants (Str ''/proj'')
   = Some (proj_log @ [Exists ''/studio/pcA'', Exists ''/studio/pcB'', EnvLookup],
           Inl ConfigurationMismatch)"
proof -
  have 1: "cleanup_curr_pc_path ''/studio/pcB '' = ''/studio/pcB''"
    by (simp add: cleanup_curr_pc_path_def endswith_def backslash_def)
  have 2: "cleanup_curr_pc_path ''/studio/pcD'' = ''/studio/pcD''"
    by (simp add: cleanup_curr_pc_path_def endswith_def backslash_def)
  show ?thesis
    using from_path_active_configuration [OF candidates_A_B 1 [symmetric] refl]
      from_path_active_configuration [OF candidates_A_B 2 [symmetric] refl]
    by (simp add: construct_B)
qed

text \<open>
  C3 as stated fails: the value \<^verbatim>\<open>/studio/pcC\<close> is one of the candidates, and the run
  does not succeed with it, because the constructor raises on the \<^verbatim>\<open>roots.yml\<close> of C.
\<close>

theorem from_path_active_configuration_counterexample:
  "from_path (project_machine [Some (linux_row ''/studio/pcA''), Some (linux_row ''/studio/pcC'')])
     (Some ''/studio/pcC'') (tracking_service [] None) tank_constants (Str ''/proj'')
   = Some (proj_log @ [Exists ''/studio/pcA'', Exists ''/studio/pcC'', EnvLookup,
                       Construct ''/studio/pcC''],
           Inl MissingPrimaryStorage)"
  by (simp add: from_path_def candidates_A_C select_pc_def construct_def construct_C Let_def
      cleanup_curr_pc_path_def endswith_def backslash_def)

section \<open>C4: the cleanup of the active configuration\<close>

text \<open>
  C4, as the code has it. Both resolvers clean the value of \<^verbatim>\<open>TANK_CURRENT_PC\<close> up
  before they use it, on every platform: a single trailing space is stripped, if there
  is one, and then a single trailing backslash, if there is one. So a value that ends
  with a backslash and a space loses both; a value that ends with a space after
  something else than a backslash loses the space and no more, even when another space
  comes to the end; a value that ends with a backslash loses the backslash and no more;
  and any other value, one that ends with \<^verbatim>\<open>/\<close> among them, is left as it is. Two
  values with the same cleaned-up value get the same result from each resolver, and
  \<^verbatim>\<open>from_path\<close> compares the cleaned-up value with the candidates: once the candidates
  are reached, it fails with \<open>ConfigurationMismatch\<close> exactly when the cleaned-up value
  is not one of them.
\<close>

theorem cleanup_curr_pc_path_space_backslash:
  "(\<forall>u. v = u @ [backslash, CHR '' ''] \<longrightarrow> cleanup_curr_pc_path v = u) \<and>
   (\<forall>u. v = u @ '' '' \<and> \<not> endswith u backslash \<longrightarrow> cleanup_curr_pc_path v = u) \<and>
   (\<forall>u. v = u @ [backslash] \<longrightarrow> cleanup_curr_pc_path v = u) \<and>
   (\<not> endswith v CHR '' '' \<and> \<not> endswith v backslash \<longrightarrow> cleanup_curr_pc_path v = v) \<and>
   (cleanup_curr_pc_path v = cleanup_curr_pc_path w \<longrightarrow>
      from_path os (Some v) sg C arg = from_path os (Some w) sg C arg \<and>
      from_entity os (Some v) sg C entity_type entity_id
        = from_entity os (Some w) sg C entity_type entity_id) \<and>
   (\<forall>lg cs. candidate_stage os C arg = Some (lg, Inr (Candidates cs)) \<longrightarrow>
      (from_path os (Some v) sg C arg = Some (lg @ [EnvLookup], Inl ConfigurationMismatch))
        = (cleanup_curr_pc_path v \<notin> set cs))"
proof -
  have same: "from_path os (Some v) sg C arg = from_path os (Some w) sg C arg \<and>
      from_entity os (Some v) sg C entity_type entity_id
        = from_entity os (Some w) sg C entity_type entity_id"
    if eq: "cleanup_curr_pc_path v = cleanup_curr_pc_path w"
  proof -
    have s: "select_pc os (Some v) sg C cs lg = select_pc os (Some w) sg C cs lg" for cs lg
      by (simp add: select_pc_def eq)
    have e: "from_entity_current os C pcs v = from_entity_current os C pcs w" for pcs
      by (simp add: from_entity_current_def eq)
    show ?thesis
      by (simp add: from_path_def from_entity_def s e Let_def
          split: option.splits prod.splits sum.splits stage.splits)
  qed
  have cmp: "(from_path os (Some v) sg C arg = Some (lg @ [EnvLookup], Inl ConfigurationMismatch))
        = (cleanup_curr_pc_path v \<notin> set cs)"
    if "candidate_stage os C arg = Some (lg, Inr (Candidates cs))" for lg cs
    using that by (simp add: from_path_def select_pc_def construct_def Let_def)
  show ?thesis
    using same cmp by (simp add: cleanup_cases)
qed

theorem cleanup_curr_pc_path_space_backslash_witness:
  "cleanup_curr_pc_path ''/studio/pcB '' = ''/studio/pcB'' \<and>
   cleanup_curr_pc_path ''/studio/pcB  '' = ''/studio/pcB '' \<and>
   from_path (project_machine [Some (linux_row ''/studio/pcA''), Some (linux_row ''/studio/pcB'')])
     (Some ''/studio/pcB '') (tracking_service [] None) tank_constants (Str ''/proj'')
   = from_path (project_machine [Some (linux_row ''/studio/pcA''), Some (linux_row ''/studio/pcB'')])
     (Some ''/studio/pcB'') (tracking_service [] None) tank_constants (Str ''/proj'') \<and>
   from_path (project_machine [Some (linux_row ''/studio/pcA''), Some (linux_row ''/studio/pcB'')])
     (Some ''/studio/pcB  '') (tracking_service [] None) tank_constants (Str ''/proj'')
   = Some (proj_log @ [Exists ''/studio/pcA'', Exists ''/studio/pcB'', EnvLookup],
           Inl ConfigurationMismatch)"
proof -
  let ?os = "project_machine [Some (linux_row ''/studio/pcA''), Some (linux_row ''/studio/pcB'')]"
  have nb: "\<not> endswith ''/studio/pcB'' backslash" "\<not> endswith ''/studio/pcB '' backslash"
    "\<not> endswith ''/studio/pcB'' CHR '' ''"
    by (simp_all add: endswith_def backslash_def)
  have a: "cleanup_curr_pc_path ''/studio/pcB '' = ''/studio/pcB''"
    using cleanup_curr_pc_path_space_backslash [of "''/studio/pcB ''"] nb(1)
    by (auto dest: spec [of _ "''/studio/pcB''"])
  have b: "cleanup_curr_pc_path ''/studio/pcB  '' = ''/studio/pcB ''"
    using cleanup_curr_pc_path_space_backslash [of "''/studio/pcB  ''"] nb(2)
    by (auto dest: spec [of _ "''/studio/pcB ''"])
  have c: "cleanup_curr_pc_path ''/studio/pcB'' = ''/studio/pcB''"
    using cleanup_curr_pc_path_space_backslash [of "''/studio/pcB''"] nb(1,3)
    by blast
  have d: "from_path ?os (Some ''/studio/pcB '') (tracking_service [] None) tank_constants (Str ''/proj'')
      = from_path ?os (Some ''/studio/pcB'') (tracking_service [] None) tank_constants (Str ''/proj'')"
    using cleanup_curr_pc_path_space_backslash
      [where v = "''/studio/pcB ''" and w = "''/studio/pcB''" and os = ?os
         and sg = "tracking_service [] None" and C = tank_constants and arg = "Str ''/proj''"]
      a c
    by simp
  have e: "from_path ?os (Some ''/studio/pcB  '') (tracking_service [] None) tank_constants (Str ''/proj'')
      = Some ((proj_log @ [Exists ''/studio/pcA'', Exists ''/studio/pcB'']) @ [EnvLookup],
              Inl ConfigurationMismatch)"
    using cleanup_curr_pc_path_space_backslash
      [where v = "''/studio/pcB  ''" and os = ?os
         and sg = "tracking_service [] None" and C = tank_constants and arg = "Str ''/proj''"]
      candidates_A_B b
    by simp
  show ?thesis
    using a b d e by simp
qed

text \<open>
  C4 as stated fails on linux, where the separator is \<^verbatim>\<open>/\<close>: the value
  \<^verbatim>\<open>/studio/pcB/\<close> is left as it is, and the resolution that succeeds with
  \<^verbatim>\<open>/studio/pcB\<close> fails with \<open>ConfigurationMismatch\<close>.
\<close>

theorem cleanup_curr_pc_path_separator_counterexample:
  "path_sep (project_machine [Some (linux_row ''/studio/pcA''), Some (linux_row ''/studio/pcB'')]) = CHR ''/'' \<and>
   cleanup_curr_pc_path ''/studio/pcB/'' = ''/studio/pcB/'' \<and>
   from_path (project_machine [Some (linux_row ''/studio/pcA''), Some (linux_row ''/studio/pcB'')])
     (Some ''/studio/pcB/'') (tracking_service [] None) tank_constants (Str ''/proj'')
   = Some (proj_log @ [Exists ''/studio/pcA'', Exists ''/studio/pcB'', EnvLookup], Inl ConfigurationMismatch) \<and>
   from_path (project_machine [Some (linux_row ''/studio/pcA''), Some (linux_row ''/studio/pcB'')])
     (Some ''/studio/pcB'') (tracking_service [] None) tank_constants (Str ''/proj'')
   = Some (proj_log @ [Exists ''/studio/pcA'', Exists ''/studio/pcB'', EnvLookup,
                       Construct ''/studio/pcB''],
           Inr (studio_handle ''/studio/pcB''))"
  by (simp add: from_path_def candidates_A_B select_pc_def construct_def construct_B
      project_machine_simps cleanup_curr_pc_path_def endswith_def backslash_def Let_def)

section \<open>C5: the path of a configuration root\<close>




section \<open>C6: trailing separators of the roots\<close>

text \<open>
  C6 fails on the code. The comment of line 134 states what the loop of lines 135 to
  141 is for: to make sure that all paths are correctly ended without a path separator.
  The loop removes the last character of a path that ends with its separator, once. A
  \<^verbatim>\<open>roots.yml\<close> whose primary storage has all three keys and the mac path
  \<^verbatim>\<open>/studio//\<close> is loaded with the mac path \<^verbatim>\<open>/studio/\<close>: exactly one separator
  is stripped, and the output has a trailing separator on a path.
\<close>

theorem load_roots_leaves_trailing_separator:
  "load_roots_meatadata
     (roots_machine
        [(''primary'', Some [(''mac_path'', Some ''/studio//''), (''linux_path'', Some ''/studio''),
                             (''windows_path'', None)])])
     tank_constants ''/pc''
   = Inr [(''primary'', \<lparr>mac_path = Some ''/studio/'', linux_path = Some ''/studio'', windows_path = None\<rparr>)] \<and>
   \<not> no_trailing_separator
     [(''primary'', \<lparr>mac_path = Some ''/studio/'', linux_path = Some ''/studio'', windows_path = None\<rparr>)]"
  by (simp add: load_roots_meatadata_def join_def roots_machine_simps posixpath_join_def
      tank_constants_def strip_storage_def strip_trailing_def endswith_def
      no_trailing_separator_def has_trailing_def)

section \<open>C7: adding a configuration twice\<close>

text \<open>
  C7, as the code has it. Let the writes complete. If the back-mapping file is missing,
  or holds a sequence, and the YAML library reads back what it dumps of the sequences
  written, then adding a triple succeeds, and adding it again succeeds and changes no
  file; if an item of the stored sequence is equal to the dictionary of the triple (the
  same three keys with the same values), the stored sequence is unchanged after the
  first addition; if not, the stored sequence after the first addition, and still after
  the second, is the sequence before with the dictionary of the triple at its end: one
  element longer, once. If the file exists and is empty, so that it loads as the null
  document, both additions fail with the \<^verbatim>\<open>TypeError\<close> of the runtime at line 373; if
  it does not parse, both fail with \<open>CorruptConfig\<close>; in both cases no file changes.
\<close>

theorem add_pipeline_configuration_idempotent:
  assumes "new_item = new_mapping mac win linux"
    and "once = add_pipeline_configuration Y Completes config_file files mac win linux"
    and "twice = add_pipeline_configuration Y Completes config_file (fst once) mac win linux"
  shows "(\<forall>data.
            read_config_file Y files config_file = Inr (Some data) \<and>
            (\<forall>d \<in> {data, data @ [Some new_item]}. yaml_load Y (yaml_dump Y d) = Loaded (Some d)) \<longrightarrow>
              snd once = Inr () \<and> snd twice = Inr () \<and> fst twice = fst once \<and>
              (item_in new_item data \<longrightarrow>
                 read_config_file Y (fst once) config_file = Inr (Some data)) \<and>
              (\<not> item_in new_item data \<longrightarrow>
                 read_config_file Y (fst once) config_file = Inr (Some (data @ [Some new_item])) \<and>
                 read_config_file Y (fst twice) config_file = Inr (Some (data @ [Some new_item])))) \<and>
         (read_config_file Y files config_file = Inr None \<longrightarrow>
            once = (files, Inl PyTypeError) \<and> twice = (files, Inl PyTypeError)) \<and>
         (\<forall>e. read_config_file Y files config_file = Inl e \<longrightarrow>
            once = (files, Inl e) \<and> twice = (files, Inl e))"
proof -
  have seq: "snd once = Inr () \<and> snd twice = Inr () \<and> fst twice = fst once \<and>
              (item_in new_item data \<longrightarrow>
                 read_config_file Y (fst once) config_file = Inr (Some data)) \<and>
              (\<not> item_in new_item data \<longrightarrow>
                 read_config_file Y (fst once) config_file = Inr (Some (data @ [Some new_item])) \<and>
                 read_config_file Y (fst twice) config_file = Inr (Some (data @ [Some new_item])))"
    if rd: "read_config_file Y files config_file = Inr (Some data)"
      and rt: "\<forall>d \<in> {data, data @ [Some new_item]}. yaml_load Y (yaml_dump Y d) = Loaded (Some d)"
    for data
  proof (cases "item_in new_item data")
    case True
    have l: "yaml_load Y (yaml_dump Y data) = Loaded (Some data)"
      using rt by simp
    have o: "once = (files(config_file \<mapsto> yaml_dump Y data), Inr ())"
      using rd True assms(1) by (simp add: assms(2) add_pipeline_configuration_def)
    have r: "read_config_file Y (fst once) config_file = Inr (Some data)"
      using l by (simp add: o read_config_file_def)
    have t: "twice = (fst once, Inr ())"
      using r True assms(1) by (simp add: assms(3) add_pipeline_configuration_def o)
    show ?thesis
      using True o r t by simp
  next
    case False
    let ?d = "data @ [Some new_item]"
    have i: "item_in new_item ?d"
      by (simp add: item_in_def dict_eq_def list_all_iff)
    have l: "yaml_load Y (yaml_dump Y ?d) = Loaded (Some ?d)"
      using rt by simp
    have o: "once = (files(config_file \<mapsto> yaml_dump Y ?d), Inr ())"
      using rd False assms(1) by (simp add: assms(2) add_pipeline_configuration_def)
    have r: "read_config_file Y (fst once) config_file = Inr (Some ?d)"
      using l by (simp add: o read_config_file_def)
    have t: "twice = (fst once, Inr ())"
      using r i assms(1) by (simp add: assms(3) add_pipeline_configuration_def o)
    show ?thesis
      using False o r t by simp
  qed
  have null: "once = (files, Inl PyTypeError) \<and> twice = (files, Inl PyTypeError)"
    if rd: "read_config_file Y files config_file = Inr None"
  proof -
    have o: "once = (files, Inl PyTypeError)"
      using rd by (simp add: assms(2) add_pipeline_configuration_def)
    then show ?thesis
      using rd by (simp add: assms(3) add_pipeline_configuration_def)
  qed
  have err: "once = (files, Inl e) \<and> twice = (files, Inl e)"
    if rd: "read_config_file Y files config_file = Inl e" for e
  proof -
    have o: "once = (files, Inl e)"
      using rd by (simp add: assms(2) add_pipeline_configuration_def)
    then show ?thesis
      using rd by (simp add: assms(3) add_pipeline_configuration_def)
  qed
  show ?thesis
    using seq null err by blast
qed

theorem add_pipeline_configuration_idempotent_witness:
  "add_pipeline_configuration small_yaml Completes ''/proj/tank/config/pipeline_configurations.yml''
      [''/proj/tank/config/pipeline_configurations.yml'' \<mapsto> text_A] None None (Some ''/studio/pcB'')
     = ([''/proj/tank/config/pipeline_configurations.yml'' \<mapsto> text_AB], Inr ()) \<and>
   add_pipeline_configuration small_yaml Completes ''/proj/tank/config/pipeline_configurations.yml''
      [''/proj/tank/config/pipeline_configurations.yml'' \<mapsto> text_AB] None None (Some ''/studio/pcB'')
     = ([''/proj/tank/config/pipeline_configurations.yml'' \<mapsto> text_AB], Inr ()) \<and>
   read_config_file small_yaml [''/proj/tank/config/pipeline_configurations.yml'' \<mapsto> text_AB]
      ''/proj/tank/config/pipeline_configurations.yml''
     = Inr (Some [Some (linux_row ''/studio/pcA''), Some (linux_row ''/studio/pcB'')]) \<and>
   add_pipeline_configuration small_yaml Completes ''/proj/tank/config/pipeline_configurations.yml''
      [''/proj/tank/config/pipeline_configurations.yml'' \<mapsto> text_L] None None (Some ''/studio/pcB'')
     = ([''/proj/tank/config/pipeline_configurations.yml'' \<mapsto> text_LB], Inr ())"
proof -
  let ?cf = "''/proj/tank/config/pipeline_configurations.yml''"
  let ?files = "[?cf \<mapsto> text_A]"
  let ?data = "[Some (linux_row ''/studio/pcA'')]"
  let ?once = "add_pipeline_configuration small_yaml Completes ?cf ?files None None (Some ''/studio/pcB'')"
  let ?twice = "add_pipeline_configuration small_yaml Completes ?cf (fst ?once) None None (Some ''/studio/pcB'')"
  have 1: "read_config_file small_yaml ?files ?cf = Inr (Some ?data)"
    by (simp add: read_config_file_def small_yaml_simps)
  have 2: "linux_row ''/studio/pcB'' = new_mapping None None (Some ''/studio/pcB'')"
    by (simp add: linux_row_def)
  have 3: "\<forall>d \<in> {?data, ?data @ [Some (linux_row ''/studio/pcB'')]}.
             yaml_load small_yaml (yaml_dump small_yaml d) = Loaded (Some d)"
    by (simp add: small_yaml_simps)
  have 4: "\<not> item_in (linux_row ''/studio/pcB'') ?data"
    by (simp add: item_in_def dict_eq_def linux_row_def new_mapping_def)
  have 5: "\<not> item_in (linux_row ''/studio/pcB'') [Some [(''linux2'', Some ''/studio/pcB'')]]"
    by (simp add: item_in_def dict_eq_def linux_row_def new_mapping_def)
  have o: "?once = ([?cf \<mapsto> text_AB], Inr ())"
    using 4 by (simp add: add_pipeline_configuration_def read_config_file_def small_yaml_simps
        2 [symmetric] Let_def)
  have fo: "fst ?once = [?cf \<mapsto> text_AB]"
    using o by simp
  have l: "add_pipeline_configuration small_yaml Completes ?cf [?cf \<mapsto> text_L] None None (Some ''/studio/pcB'')
             = ([?cf \<mapsto> text_LB], Inr ())"
    using 5 by (simp add: add_pipeline_configuration_def read_config_file_def small_yaml_simps
        2 [symmetric] Let_def)
  from add_pipeline_configuration_idempotent [OF 2 refl refl, where Y = small_yaml and config_file = ?cf
      and files = ?files] 1 3 4
  have "snd ?twice = Inr ()" and "fst ?twice = fst ?once"
    and "read_config_file small_yaml (fst ?once) ?cf
           = Inr (Some (?data @ [Some (linux_row ''/studio/pcB'')]))"
    by blast+
  then show ?thesis
    unfolding fo using o l by (simp add: prod_eq_iff)
qed

text \<open>
  C7 as stated fails on a prior file state: an existing empty file, which is what a
  write of the code itself leaves when it fails after the file was opened. The addition
  then fails at line 373, the test \<^verbatim>\<open>new_item not in data\<close> on \<^verbatim>\<open>None\<close>, and the stored
  sequence is not the one of the claim.
\<close>

theorem add_pipeline_configuration_empty_file_counterexample:
  "add_pipeline_configuration small_yaml (DumpFails 0) ''/proj/tank/config/pipeline_configurations.yml''
      [''/proj/tank/config/pipeline_configurations.yml'' \<mapsto> text_A] None None (Some ''/studio/pcB'')
     = ([''/proj/tank/config/pipeline_configurations.yml'' \<mapsto> ''''], Inl WriteFailure) \<and>
   add_pipeline_configuration small_yaml Completes ''/proj/tank/config/pipeline_configurations.yml''
      [''/proj/tank/config/pipeline_configurations.yml'' \<mapsto> ''''] None None (Some ''/studio/pcB'')
     = ([''/proj/tank/config/pipeline_configurations.yml'' \<mapsto> ''''], Inl PyTypeError)"
  by (simp add: add_pipeline_configuration_def read_config_file_def small_yaml_simps Let_def)

section \<open>C8: a write that fails\<close>




section \<open>C9: rows without a path for the platform\<close>

text \<open>
  C9 fails on the code. The test of line 589 drops the rows that are null, not the paths
  that are: a row with a mac path only gives \<^verbatim>\<open>None\<close> on linux, \<^verbatim>\<open>os.path.exists\<close> is
  called on it, and the resolution ends with the \<^verbatim>\<open>TypeError\<close> of the runtime.
\<close>

theorem candidate_set_absent_path_raises:
  "from_path (project_machine [Some [(''darwin'', Some ''/mac/pc''), (''win32'', None), (''linux2'', None)]])
      None (tracking_service [] None) tank_constants (Str ''/proj'')
   = Some ([Exists ''/proj'', Exists ''/proj/config/core/pipeline_configuration.yml'',
            Exists ''/proj/tank/config/pipeline_configurations.yml'',
            ReadYaml ''/proj/tank/config/pipeline_configurations.yml''], Inl PyTypeError)"
  by (simp add: from_path_def candidate_stage_def existing_path_def posixpath_dirname_def
      posixpath_join_def tank_constants_def find_config_path.simps current_os_pcs_def
      Let_def project_machine_simps join_def dict_get_def)

section \<open>C10: the data roots\<close>



end
